theory Spec2Isabelle
  imports Complex_Main "HOL-Library.AList" "HOL-Library.Sublist"
begin

section \<open>JavaScript values, objects and the heap\<close>

text \<open>
  \<^verbatim>\<open>src/deployer/Deployer.js\<close> is untyped JavaScript: the wallet, the provider, the
  overrides, the contract artifact, the transactions and the receipt are arbitrary values.
  The model keeps them as such. A number is a double: not-a-number, an infinity or a finite
  rational (every finite double is one; \<open>-0\<close> and \<open>+0\<close> are the same value here, as they are
  for \<open>>\<close> and \<open>===\<close>). Functions, symbols and big integers are not among the values.
\<close>

datatype jsnum = NaN | Finite rat | PosInfinity | NegInfinity

type_synonym addr = nat

datatype jsval =
    JUndefined
  | JNull
  | JBool bool
  | JNum jsnum
  | JStr string
  | JRef addr

text \<open>
  An object is a list of own data properties in insertion order; the heap holds an object
  at every address. \<open>isWallet\<close> says whether \<open>Wallet.prototype\<close> of the ethers library
  is on the object's prototype chain, which is all that \<open>instanceof Wallet\<close> looks at.
  Objects live in a heap and are handled by reference, so two values may name the same
  object and an assignment through one is seen through the other. Accessor properties,
  proxies, frozen or sealed objects, and objects that convert to a primitive in another way
  than a plain object does (arrays, big-number objects, objects with a \<open>valueOf\<close> or a
  \<open>toString\<close> of their own) are outside the model.
\<close>

record obj =
  props :: "(string \<times> jsval) list"
  isWallet :: bool

type_synonym heap = "addr \<Rightarrow> obj"

datatype error =
    TypeError
    \<comment> \<open>raised by the language: property access on \<open>undefined\<close> or \<open>null\<close>, property
        assignment on a value that is not an object (class bodies are strict code)\<close>
  | InvalidIdentity
    \<comment> \<open>\<open>new Error('Passed wallet is not instance of ethers Wallet')\<close>\<close>
  | DeploymentReverted jsval
    \<comment> \<open>\<open>new Error(`Transaction ${hash} failed. Please check etherscan ...`)\<close>,
        carrying the hash that the message prints\<close>
  | Thrown jsval
    \<comment> \<open>whatever a call into the ethers library, the wallet or the provider throws, or the
        reason of a promise it returns that is rejected\<close>

definition deref :: "heap \<Rightarrow> jsval \<Rightarrow> obj option" where
  "deref h v = (case v of JRef a \<Rightarrow> Some (h a) | _ \<Rightarrow> None)"

text \<open>
  \<open>v.k\<close> for the property names this file reads (none of them is defined on the prototypes of
  numbers, strings and booleans, so a primitive yields \<open>undefined\<close>).
\<close>

definition get_prop :: "heap \<Rightarrow> jsval \<Rightarrow> string \<Rightarrow> error + jsval" where
  "get_prop h v k =
     (case v of
        JUndefined \<Rightarrow> Inl TypeError
      | JNull \<Rightarrow> Inl TypeError
      | JRef a \<Rightarrow> Inr (case map_of (props (h a)) k of None \<Rightarrow> JUndefined | Some x \<Rightarrow> x)
      | _ \<Rightarrow> Inr JUndefined)"

text \<open>
  \<open>v.k = x\<close> in strict code: the property is overwritten in place, or added after the
  others; on a value that is not an object the assignment throws.
\<close>

definition assign :: "heap \<Rightarrow> addr \<Rightarrow> string \<Rightarrow> jsval \<Rightarrow> heap" where
  "assign h a k x = h(a := (h a)\<lparr>props := AList.update k x (props (h a))\<rparr>)"

definition set_prop :: "heap \<Rightarrow> jsval \<Rightarrow> string \<Rightarrow> jsval \<Rightarrow> error + heap" where
  "set_prop h v k x =
     (case v of
        JRef a \<Rightarrow> Inr (assign h a k x)
      | _ \<Rightarrow> Inl TypeError)"

text \<open>\<open>v instanceof Wallet\<close>: false for every primitive.\<close>

definition instanceof_Wallet :: "heap \<Rightarrow> jsval \<Rightarrow> bool" where
  "instanceof_Wallet h v = (case deref h v of Some ob \<Rightarrow> isWallet ob | None \<Rightarrow> False)"

text \<open>The own property \<open>k\<close> of the object that \<open>v\<close> names, if there is one.\<close>

definition field :: "heap \<Rightarrow> jsval \<Rightarrow> string \<Rightarrow> jsval option" where
  "field h v k = (case deref h v of Some ob \<Rightarrow> map_of (props ob) k | None \<Rightarrow> None)"

section \<open>The collaborators\<close>

text \<open>
  What the file calls and does not define: the conversion of a string to a number that the
  language applies in \<open>s > 0\<close>, \<open>ethers.Contract.getDeployTransaction\<close>, the wallet's
  \<open>sendTransaction\<close> and the provider's \<open>waitForTransaction\<close> and
  \<open>getTransactionReceipt\<close>. Each call takes the receiver (where there is one), the arguments
  and the heap, and gives back either a thrown value or a result, with the heap it leaves
  behind: a collaborator may allocate the object it returns and keep state of its own in
  objects, and whatever runs while \<open>deploy\<close> is suspended at an \<open>await\<close> is part of
  the heap that the awaited call gives back. A method that is missing on the receiver is a
  thrown value too. Awaiting a promise is the same sum: \<open>Inl\<close> for a rejection.
\<close>

record env =
  StringToNumber :: "string \<Rightarrow> jsnum"
  ethers_getDeployTransaction :: "jsval \<Rightarrow> jsval \<Rightarrow> jsval list \<Rightarrow> heap \<Rightarrow> (jsval + jsval) \<times> heap"
  wallet_sendTransaction :: "jsval \<Rightarrow> jsval \<Rightarrow> heap \<Rightarrow> (jsval + jsval) \<times> heap"
  provider_waitForTransaction :: "jsval \<Rightarrow> jsval \<Rightarrow> heap \<Rightarrow> (jsval + jsval) \<times> heap"
  provider_getTransactionReceipt :: "jsval \<Rightarrow> jsval \<Rightarrow> heap \<Rightarrow> (jsval + jsval) \<times> heap"

text \<open>\<open>ToNumber\<close> of the language; a plain object converts to \<open>"[object Object]"\<close> and so to NaN.\<close>

definition ToNumber :: "env \<Rightarrow> jsval \<Rightarrow> jsnum" where
  "ToNumber E v =
     (case v of
        JUndefined \<Rightarrow> NaN
      | JNull \<Rightarrow> Finite 0
      | JBool b \<Rightarrow> (if b then Finite 1 else Finite 0)
      | JNum n \<Rightarrow> n
      | JStr s \<Rightarrow> StringToNumber E s
      | JRef a \<Rightarrow> NaN)"

text \<open>\<open>v > 0\<close> and \<open>v <= 0\<close>: both are false when \<open>v\<close> converts to NaN.\<close>

definition gt_zero :: "env \<Rightarrow> jsval \<Rightarrow> bool" where
  "gt_zero E v =
     (case ToNumber E v of Finite q \<Rightarrow> 0 < q | PosInfinity \<Rightarrow> True | _ \<Rightarrow> False)"

definition le_zero :: "env \<Rightarrow> jsval \<Rightarrow> bool" where
  "le_zero E v =
     (case ToNumber E v of Finite q \<Rightarrow> q \<le> 0 | NegInfinity \<Rightarrow> True | _ \<Rightarrow> False)"

text \<open>\<open>v === 0\<close>\<close>

definition strict_eq_zero :: "jsval \<Rightarrow> bool" where
  "strict_eq_zero v = (v = JNum (Finite 0))"

section \<open>State and effects\<close>

text \<open>
  A run has the heap and a trace: the lines written to the console and the calls made to the
  wallet and the provider, in order, each recorded when the call is made and whatever its
  outcome. \<open>SendTransaction\<close> records the receiver, the argument and the object the
  argument names at the moment of the call.

  Modelled from the spec: the helpers of \<^verbatim>\<open>../utils/colors\<close> that format the console
  lines and the error message are not among the sources. The specification describes the
  output as human-readable progress lines carrying the contract name, the constructor
  arguments, the transaction hash and the final address; a \<open>logline\<close> holds those values
  and leaves the decoration out.
\<close>

datatype logline =
    DeployingContract jsval "jsval list option"
  | WaitingForTransaction jsval
  | ContractDeployed jsval jsval

datatype event =
    is_ConsoleLog: ConsoleLog logline
  | is_SendTransaction: SendTransaction jsval jsval "obj option"
  | is_WaitForTransaction: WaitForTransaction jsval jsval
  | is_GetTransactionReceipt: GetTransactionReceipt jsval jsval

record state =
  heap :: heap
  trace :: "event list"

type_synonym 'a js = "state \<Rightarrow> (error + 'a) \<times> state"

definition returnJ :: "'a \<Rightarrow> 'a js" where
  "returnJ x = (\<lambda>s. (Inr x, s))"

definition throwJ :: "error \<Rightarrow> 'a js" where
  "throwJ e = (\<lambda>s. (Inl e, s))"

definition bindJ :: "'a js \<Rightarrow> ('a \<Rightarrow> 'b js) \<Rightarrow> 'b js" where
  "bindJ m f = (\<lambda>s. case m s of (Inl e, s') \<Rightarrow> (Inl e, s') | (Inr x, s') \<Rightarrow> f x s')"

definition getProp :: "jsval \<Rightarrow> string \<Rightarrow> jsval js" where
  "getProp v k = (\<lambda>s. (get_prop (heap s) v k, s))"

definition setProp :: "jsval \<Rightarrow> string \<Rightarrow> jsval \<Rightarrow> unit js" where
  "setProp v k x =
     (\<lambda>s. case set_prop (heap s) v k x of
             Inl e \<Rightarrow> (Inl e, s)
           | Inr h \<Rightarrow> (Inr (), s\<lparr>heap := h\<rparr>))"

definition emit :: "event \<Rightarrow> unit js" where
  "emit ev = (\<lambda>s. (Inr (), s\<lparr>trace := trace s @ [ev]\<rparr>))"

definition call :: "(heap \<Rightarrow> (jsval + jsval) \<times> heap) \<Rightarrow> jsval js" where
  "call f =
     (\<lambda>s. case f (heap s) of
             (Inl x, h) \<Rightarrow> (Inl (Thrown x), s\<lparr>heap := h\<rparr>)
           | (Inr v, h) \<Rightarrow> (Inr v, s\<lparr>heap := h\<rparr>))"

section \<open>The Deployer class\<close>

record deployer =
  wallet :: jsval
  provider :: jsval
  defaultOverrides :: jsval

text \<open>
  \<^verbatim>\<open>
  _overrideDeployTransactionConfig(deployTransaction) {
      if (this.defaultOverrides === undefined) { return deployTransaction; }
      if (this.defaultOverrides.gasPrice > 0) {
          deployTransaction.gasPrice = this.defaultOverrides.gasPrice; }
      if (this.defaultOverrides.gasLimit > 0) {
          deployTransaction.gasLimit = this.defaultOverrides.gasLimit; }
      return deployTransaction;
  }
  \<close>
  Each \<open>this.defaultOverrides.gasPrice\<close> is a read of its own, as in the source.
\<close>

definition overrideDeployTransactionConfig :: "env \<Rightarrow> deployer \<Rightarrow> jsval \<Rightarrow> jsval js" where
  "overrideDeployTransactionConfig E this deployTransaction =
     (if defaultOverrides this = JUndefined then returnJ deployTransaction
      else
        bindJ (getProp (defaultOverrides this) ''gasPrice'') (\<lambda>gp.
        bindJ (if gt_zero E gp
               then bindJ (getProp (defaultOverrides this) ''gasPrice'') (\<lambda>gp'.
                      setProp deployTransaction ''gasPrice'' gp')
               else returnJ ()) (\<lambda>_.
        bindJ (getProp (defaultOverrides this) ''gasLimit'') (\<lambda>gl.
        bindJ (if gt_zero E gl
               then bindJ (getProp (defaultOverrides this) ''gasLimit'') (\<lambda>gl'.
                      setProp deployTransaction ''gasLimit'' gl')
               else returnJ ()) (\<lambda>_.
        returnJ deployTransaction)))))"

text \<open>
  \<^verbatim>\<open>
  constructor(wallet, provider, defaultOverrides) {
      if (!(wallet instanceof Wallet)) {
          throw new Error('Passed wallet is not instance of ethers Wallet'); }
      this.wallet = wallet;
      this.provider = provider;
      this.wallet.provider = provider;
      this.defaultOverrides = defaultOverrides;
  }
  \<close>
\<close>

definition Deployer_constructor :: "jsval \<Rightarrow> jsval \<Rightarrow> jsval \<Rightarrow> deployer js" where
  "Deployer_constructor wallet0 provider0 defaultOverrides0 =
     (\<lambda>s. if \<not> instanceof_Wallet (heap s) wallet0 then throwJ InvalidIdentity s
          else bindJ (setProp wallet0 ''provider'' provider0) (\<lambda>_.
               returnJ \<lparr>wallet = wallet0, provider = provider0,
                        defaultOverrides = defaultOverrides0\<rparr>) s)"

text \<open>
  The steps of \<open>deploy\<close>. Their names are the source's without the leading underscore.
  The \<open>colors\<close> helpers only decorate the text of a console line or of an error message;
  the model keeps the values that the text is made of.
\<close>

definition preValidateArguments :: "jsval \<Rightarrow> jsval list \<Rightarrow> unit js" where
  "preValidateArguments contract deploymentArguments =
     bindJ (getProp contract ''contractName'') (\<lambda>name.
     emit (ConsoleLog (DeployingContract name
            (if length deploymentArguments = 0 then None else Some deploymentArguments))))"

definition prepareDeployTransaction :: "env \<Rightarrow> jsval \<Rightarrow> jsval list \<Rightarrow> jsval js" where
  "prepareDeployTransaction E contract deploymentArguments =
     bindJ (getProp contract ''bytecode'') (\<lambda>bytecode.
     bindJ (getProp contract ''abi'') (\<lambda>abi.
     call (ethers_getDeployTransaction E bytecode abi deploymentArguments)))"

definition sendDeployTransaction :: "env \<Rightarrow> deployer \<Rightarrow> jsval \<Rightarrow> jsval js" where
  "sendDeployTransaction E this deployTransaction =
     bindJ (\<lambda>s. emit (SendTransaction (wallet this) deployTransaction
                        (deref (heap s) deployTransaction)) s) (\<lambda>_.
     call (wallet_sendTransaction E (wallet this) deployTransaction))"

definition waitForDeployTransaction :: "env \<Rightarrow> deployer \<Rightarrow> jsval \<Rightarrow> unit js" where
  "waitForDeployTransaction E this transaction =
     bindJ (getProp transaction ''hash'') (\<lambda>h.
     bindJ (emit (ConsoleLog (WaitingForTransaction h))) (\<lambda>_.
     bindJ (getProp transaction ''hash'') (\<lambda>h'.
     bindJ (emit (WaitForTransaction (provider this) h')) (\<lambda>_.
     bindJ (call (provider_waitForTransaction E (provider this) h')) (\<lambda>_.
     returnJ ())))))"

definition getTransactionReceipt :: "env \<Rightarrow> deployer \<Rightarrow> jsval \<Rightarrow> jsval js" where
  "getTransactionReceipt E this transaction =
     bindJ (getProp transaction ''hash'') (\<lambda>h.
     bindJ (emit (GetTransactionReceipt (provider this) h)) (\<lambda>_.
     call (provider_getTransactionReceipt E (provider this) h)))"

definition postValidateTransaction :: "jsval \<Rightarrow> jsval \<Rightarrow> jsval \<Rightarrow> unit js" where
  "postValidateTransaction contract transaction transactionReceipt =
     bindJ (getProp transactionReceipt ''status'') (\<lambda>status.
     if strict_eq_zero status
     then bindJ (getProp transactionReceipt ''transactionHash'') (\<lambda>h.
          throwJ (DeploymentReverted h))
     else returnJ ())"

definition generateDeploymentResult :: "jsval \<Rightarrow> jsval \<Rightarrow> jsval \<Rightarrow> jsval js" where
  "generateDeploymentResult contract transaction transactionReceipt =
     bindJ (getProp contract ''contractName'') (\<lambda>name.
     bindJ (getProp transactionReceipt ''contractAddress'') (\<lambda>address.
     bindJ (emit (ConsoleLog (ContractDeployed name address))) (\<lambda>_.
     getProp transactionReceipt ''contractAddress'')))"

text \<open>
  \<open>deploy(contract, ...deploymentArguments)\<close>: the eight calls of the body in their order;
  a step that throws ends the run with that error.
\<close>

definition deploy :: "env \<Rightarrow> deployer \<Rightarrow> jsval \<Rightarrow> jsval list \<Rightarrow> jsval js" where
  "deploy E this contract deploymentArguments =
     bindJ (preValidateArguments contract deploymentArguments) (\<lambda>_.
     bindJ (prepareDeployTransaction E contract deploymentArguments) (\<lambda>deployTransaction.
     bindJ (overrideDeployTransactionConfig E this deployTransaction) (\<lambda>overridden.
     bindJ (sendDeployTransaction E this overridden) (\<lambda>transaction.
     bindJ (waitForDeployTransaction E this transaction) (\<lambda>_.
     bindJ (getTransactionReceipt E this transaction) (\<lambda>transactionReceipt.
     bindJ (postValidateTransaction contract transaction transactionReceipt) (\<lambda>_.
     generateDeploymentResult contract transaction transactionReceipt)))))))"

text \<open>
  The body of \<open>deploy\<close> up to the receipt (lines 37 to 48): the submitted transaction and
  the receipt that the rest of the body validates and reads.
\<close>

definition fetchReceipt :: "env \<Rightarrow> deployer \<Rightarrow> jsval \<Rightarrow> jsval list \<Rightarrow> (jsval \<times> jsval) js" where
  "fetchReceipt E this contract deploymentArguments =
     bindJ (preValidateArguments contract deploymentArguments) (\<lambda>_.
     bindJ (prepareDeployTransaction E contract deploymentArguments) (\<lambda>deployTransaction.
     bindJ (overrideDeployTransactionConfig E this deployTransaction) (\<lambda>overridden.
     bindJ (sendDeployTransaction E this overridden) (\<lambda>transaction.
     bindJ (waitForDeployTransaction E this transaction) (\<lambda>_.
     bindJ (getTransactionReceipt E this transaction) (\<lambda>transactionReceipt.
     returnJ (transaction, transactionReceipt)))))))"

text \<open>How many transactions were submitted and how many receipts were asked for so far.\<close>

definition submissions :: "state \<Rightarrow> nat" where
  "submissions s = length (filter is_SendTransaction (trace s))"

definition receipts :: "state \<Rightarrow> nat" where
  "receipts s = length (filter is_GetTransactionReceipt (trace s))"

text \<open>
  The heap that the two guarded assignments of \<open>overrideDeployTransactionConfig\<close> leave
  when the transaction is the object at \<open>a\<close> and the overrides read \<open>gp\<close> and \<open>gl\<close>.
\<close>

definition overridden_heap :: "env \<Rightarrow> jsval \<Rightarrow> jsval \<Rightarrow> addr \<Rightarrow> heap \<Rightarrow> heap" where
  "overridden_heap E gp gl a h =
     (let h1 = (if gt_zero E gp then assign h a ''gasPrice'' gp else h)
      in if gt_zero E gl then assign h1 a ''gasLimit'' gl else h1)"

section \<open>A concrete deployment\<close>

text \<open>
  The scenario of the specification: the artifact \<open>Token\<close> with bytecode \<open>0x600a\<close>, the
  argument 1000, the overrides \<open>{gasPrice: 5, gasLimit: 0}\<close> and a receipt that reports the
  address \<open>0xABC\<close>. The wallet is object 0, the provider object 1, the overrides object 2,
  the artifact object 3 and its ABI object 4; the library allocates the deploy transaction
  at 5, the wallet the submitted transaction at 6 and the provider the receipt at 7; every
  other address holds an empty object. No string is compared with a number in these runs.
\<close>

definition plain :: "(string \<times> jsval) list \<Rightarrow> obj" where
  "plain ps = \<lparr>props = ps, isWallet = False\<rparr>"

definition ex_heap :: heap where
  "ex_heap = (\<lambda>_. plain [])
     (0 := \<lparr>props = [], isWallet = True\<rparr>,
      2 := plain [(''gasPrice'', JNum (Finite 5)), (''gasLimit'', JNum (Finite 0))],
      3 := plain [(''contractName'', JStr ''Token''), (''abi'', JRef 4),
                  (''bytecode'', JStr ''0x600a'')])"

definition ex_state :: state where
  "ex_state = \<lparr>heap = ex_heap, trace = []\<rparr>"

definition ex_this :: deployer where
  "ex_this = \<lparr>wallet = JRef 0, provider = JRef 1, defaultOverrides = JRef 2\<rparr>"

definition ex_receipt :: "jsnum \<Rightarrow> jsval \<Rightarrow> obj" where
  "ex_receipt status hash =
     plain [(''transactionHash'', hash), (''contractAddress'', JStr ''0xABC''),
            (''status'', JNum status)]"

definition ex_env :: env where
  "ex_env = \<lparr>
     StringToNumber = (\<lambda>_. NaN),
     ethers_getDeployTransaction =
       (\<lambda>bytecode abi args h. (Inr (JRef 5), h(5 := plain [(''data'', bytecode)]))),
     wallet_sendTransaction =
       (\<lambda>w tx h. (Inr (JRef 6), h(6 := plain [(''hash'', JStr ''0x01'')]))),
     provider_waitForTransaction = (\<lambda>p hash h. (Inr JUndefined, h)),
     provider_getTransactionReceipt =
       (\<lambda>p hash h. (Inr (JRef 7), h(7 := ex_receipt (Finite 1) hash)))\<rparr>"

text \<open>The same network with a receipt whose status is 0.\<close>

definition ex_env_reverted :: env where
  "ex_env_reverted = ex_env\<lparr>
     provider_getTransactionReceipt :=
       (\<lambda>p hash h. (Inr (JRef 7), h(7 := ex_receipt (Finite 0) hash)))\<rparr>"

text \<open>The same network with a wallet whose broadcast is rejected.\<close>

definition ex_env_rejected :: env where
  "ex_env_rejected = ex_env\<lparr>
     wallet_sendTransaction := (\<lambda>w tx h. (Inl (JStr ''insufficient funds''), h))\<rparr>"

text \<open>The states that the successful run goes through.\<close>

definition ex_args :: "jsval list" where
  "ex_args = [JNum (Finite 1000)]"

definition ex_built :: state where
  "ex_built = \<lparr>heap = ex_heap(5 := plain [(''data'', JStr ''0x600a'')]),
               trace = [ConsoleLog (DeployingContract (JStr ''Token'') (Some ex_args))]\<rparr>"

definition ex_overridden :: state where
  "ex_overridden =
     \<lparr>heap = ex_heap(5 := plain [(''data'', JStr ''0x600a''), (''gasPrice'', JNum (Finite 5))]),
      trace = [ConsoleLog (DeployingContract (JStr ''Token'') (Some ex_args))]\<rparr>"

definition ex_fetched :: "jsnum \<Rightarrow> state" where
  "ex_fetched status =
     \<lparr>heap = ex_heap
        (5 := plain [(''data'', JStr ''0x600a''), (''gasPrice'', JNum (Finite 5))],
         6 := plain [(''hash'', JStr ''0x01'')],
         7 := ex_receipt status (JStr ''0x01'')),
      trace =
        [ConsoleLog (DeployingContract (JStr ''Token'') (Some ex_args)),
         SendTransaction (JRef 0) (JRef 5)
           (Some (plain [(''data'', JStr ''0x600a''), (''gasPrice'', JNum (Finite 5))])),
         ConsoleLog (WaitingForTransaction (JStr ''0x01'')),
         WaitForTransaction (JRef 1) (JStr ''0x01''),
         GetTransactionReceipt (JRef 1) (JStr ''0x01'')]\<rparr>"

section \<open>The effect monad\<close>

lemma bindJ_returnJ [simp]: "bindJ (returnJ x) f = f x"
  by (simp add: bindJ_def returnJ_def)

lemma bindJ_assoc: "bindJ (bindJ m f) g = bindJ m (\<lambda>x. bindJ (f x) g)"
  by (auto simp: bindJ_def fun_eq_iff split: prod.splits sum.splits)

lemma bindJ_eq_Inr:
  "bindJ m f s = (Inr y, s') \<longleftrightarrow> (\<exists>x s1. m s = (Inr x, s1) \<and> f x s1 = (Inr y, s'))"
  by (auto simp: bindJ_def split: prod.splits sum.splits)

lemma bindJ_cases:
  assumes "bindJ m f s = (r, s')"
  obtains (fail) e where "m s = (Inl e, s')" "r = Inl e"
        | (ok) x s1 where "m s = (Inr x, s1)" "f x s1 = (r, s')"
  using assms by (auto simp: bindJ_def split: prod.splits sum.splits)

section \<open>Reading and assigning properties\<close>

lemma field_assign:
  "field (assign h a k x) (JRef b) k' =
     (if a = b \<and> k = k' then Some x else field h (JRef b) k')"
  by (simp add: field_def deref_def assign_def update_conv')

lemma get_prop_assign:
  "get_prop (assign h a k x) v k' =
     (if v = JRef a \<and> k = k' then Inr x else get_prop h v k')"
  by (cases v) (simp_all add: get_prop_def assign_def update_conv')

lemma assign_triv: "field h (JRef a) k = Some x \<Longrightarrow> assign h a k x = h"
  by (simp add: field_def deref_def assign_def update_triv)

lemma get_prop_total: "get_prop h v k = Inr x \<Longrightarrow> \<exists>y. get_prop h' v k' = Inr y"
  by (cases v) (simp_all add: get_prop_def)

lemma le_zero_not_gt_zero: "le_zero E v \<Longrightarrow> \<not> gt_zero E v"
  by (simp add: le_zero_def gt_zero_def split: jsnum.splits)

section \<open>The apply-overrides step\<close>

lemma overridden_heap_props:
  "props (overridden_heap E gp gl a h a) =
     (if gt_zero E gl then AList.update ''gasLimit'' gl else id)
       ((if gt_zero E gp then AList.update ''gasPrice'' gp else id) (props (h a)))"
  by (simp add: overridden_heap_def assign_def)

lemma overridden_heap_field:
  "field (overridden_heap E gp gl a h) (JRef b) k =
     (if b = a \<and> k = ''gasLimit'' \<and> gt_zero E gl then Some gl
      else if b = a \<and> k = ''gasPrice'' \<and> gt_zero E gp then Some gp
      else field h (JRef b) k)"
  by (auto simp: overridden_heap_def field_assign)

lemma overridden_heap_other: "b \<noteq> a \<Longrightarrow> overridden_heap E gp gl a h b = h b"
  by (simp add: overridden_heap_def assign_def)

lemma overridden_heap_isWallet: "isWallet (overridden_heap E gp gl a h b) = isWallet (h b)"
  by (simp add: overridden_heap_def assign_def)

lemma overridden_heap_get_prop:
  "get_prop (overridden_heap E gp gl a h) v k =
     (if v = JRef a \<and> k = ''gasLimit'' \<and> gt_zero E gl then Inr gl
      else if v = JRef a \<and> k = ''gasPrice'' \<and> gt_zero E gp then Inr gp
      else get_prop h v k)"
  by (auto simp: overridden_heap_def get_prop_assign)

lemma overridden_heap_idem:
  "overridden_heap E gp gl a (overridden_heap E gp gl a h) = overridden_heap E gp gl a h"
proof -
  let ?h = "overridden_heap E gp gl a h"
  have 1: "gt_zero E gp \<Longrightarrow> assign ?h a ''gasPrice'' gp = ?h"
    by (rule assign_triv) (simp add: overridden_heap_field)
  have 2: "gt_zero E gl \<Longrightarrow> assign ?h a ''gasLimit'' gl = ?h"
    by (rule assign_triv) (simp add: overridden_heap_field)
  show ?thesis
    using 1 2 by (subst (1) overridden_heap_def) (simp add: Let_def)
qed

lemma override_readable:
  assumes "get_prop (heap s) (defaultOverrides this) k = Inr z"
  shows "defaultOverrides this \<noteq> JUndefined"
    and "\<exists>x y. get_prop (heap s) (defaultOverrides this) ''gasPrice'' = Inr x
              \<and> get_prop (heap s) (defaultOverrides this) ''gasLimit'' = Inr y"
  using assms by (cases "defaultOverrides this"; simp add: get_prop_def)+

lemma override_object:
  assumes "get_prop (heap s) (defaultOverrides this) ''gasPrice'' = Inr gp"
      and "get_prop (heap s) (defaultOverrides this) ''gasLimit'' = Inr gl"
  shows "overrideDeployTransactionConfig E this (JRef a) s =
           (Inr (JRef a), s\<lparr>heap := overridden_heap E gp gl a (heap s)\<rparr>)"
  using assms override_readable(1) [OF assms(1)]
  by (simp add: overrideDeployTransactionConfig_def overridden_heap_def bindJ_def getProp_def
      setProp_def set_prop_def returnJ_def get_prop_assign Let_def)

lemma override_primitive:
  assumes "get_prop (heap s) (defaultOverrides this) ''gasPrice'' = Inr gp"
      and "get_prop (heap s) (defaultOverrides this) ''gasLimit'' = Inr gl"
      and "\<forall>a. tx \<noteq> JRef a"
  shows "overrideDeployTransactionConfig E this tx s =
           (if gt_zero E gp \<or> gt_zero E gl then Inl TypeError else Inr tx, s)"
  using assms override_readable(1) [OF assms(1)]
  by (cases tx) (simp_all add: overrideDeployTransactionConfig_def bindJ_def getProp_def
      setProp_def set_prop_def returnJ_def)

lemma override_null:
  assumes "defaultOverrides this = JNull"
  shows "overrideDeployTransactionConfig E this tx s = (Inl TypeError, s)"
  using assms
  by (simp add: overrideDeployTransactionConfig_def bindJ_def getProp_def get_prop_def)

lemma override_no_gas_fields:
  assumes "defaultOverrides this = JRef b"
      and "field (heap s) (JRef b) ''gasPrice'' = None"
      and "field (heap s) (JRef b) ''gasLimit'' = None"
  shows "overrideDeployTransactionConfig E this tx s = (Inr tx, s)"
proof -
  have gp: "get_prop (heap s) (JRef b) ''gasPrice'' = Inr JUndefined"
    using assms(2) by (simp add: get_prop_def field_def deref_def)
  have gl: "get_prop (heap s) (JRef b) ''gasLimit'' = Inr JUndefined"
    using assms(3) by (simp add: get_prop_def field_def deref_def)
  have ng: "\<not> gt_zero E JUndefined"
    by (simp add: gt_zero_def ToNumber_def)
  show ?thesis
    using gp gl ng
    by (simp add: overrideDeployTransactionConfig_def assms(1) bindJ_def getProp_def returnJ_def)
qed

lemma overrideDeployTransactionConfig_trace:
  "overrideDeployTransactionConfig E this tx s = (r, s') \<Longrightarrow> trace s' = trace s"
  by (auto simp: overrideDeployTransactionConfig_def bindJ_def getProp_def setProp_def
      returnJ_def split: sum.splits prod.splits if_splits)

section \<open>The steps of deploy\<close>

lemma deploy_split:
  "deploy E this contract args =
     bindJ (fetchReceipt E this contract args) (\<lambda>(transaction, receipt).
     bindJ (postValidateTransaction contract transaction receipt) (\<lambda>_.
     generateDeploymentResult contract transaction receipt))"
  by (simp add: deploy_def fetchReceipt_def bindJ_assoc)

lemma postValidateTransaction_eq:
  "postValidateTransaction contract transaction receipt s =
     (case get_prop (heap s) receipt ''status'' of
        Inl e \<Rightarrow> (Inl e, s)
      | Inr status \<Rightarrow>
          if strict_eq_zero status
          then (case get_prop (heap s) receipt ''transactionHash'' of
                  Inl e \<Rightarrow> (Inl e, s) | Inr h \<Rightarrow> (Inl (DeploymentReverted h), s))
          else (Inr (), s))"
  by (simp add: postValidateTransaction_def bindJ_def getProp_def throwJ_def returnJ_def
      split: sum.splits)

lemma generateDeploymentResult_eq:
  "generateDeploymentResult contract transaction receipt s =
     (case get_prop (heap s) contract ''contractName'' of
        Inl e \<Rightarrow> (Inl e, s)
      | Inr name \<Rightarrow>
          (case get_prop (heap s) receipt ''contractAddress'' of
             Inl e \<Rightarrow> (Inl e, s)
           | Inr address \<Rightarrow>
               (Inr address, s\<lparr>trace := trace s @ [ConsoleLog (ContractDeployed name address)]\<rparr>)))"
  by (simp add: generateDeploymentResult_def bindJ_def getProp_def emit_def
      split: sum.splits)

lemma postValidateTransaction_Inr:
  "postValidateTransaction contract transaction receipt s = (Inr u, s1) \<longleftrightarrow>
     (\<exists>status. get_prop (heap s) receipt ''status'' = Inr status \<and> \<not> strict_eq_zero status)
     \<and> s1 = s"
  by (auto simp: postValidateTransaction_eq split: sum.splits if_splits)

lemma generateDeploymentResult_Inr:
  "generateDeploymentResult contract transaction receipt s = (Inr r, s1) \<longleftrightarrow>
     (\<exists>name. get_prop (heap s) contract ''contractName'' = Inr name
           \<and> get_prop (heap s) receipt ''contractAddress'' = Inr r
           \<and> s1 = s\<lparr>trace := trace s @ [ConsoleLog (ContractDeployed name r)]\<rparr>)"
  by (auto simp: generateDeploymentResult_eq split: sum.splits)

lemma postValidateTransaction_state:
  "postValidateTransaction contract transaction receipt s = (r, s') \<Longrightarrow> s' = s"
  by (auto simp: postValidateTransaction_eq split: sum.splits if_splits)

subsection \<open>What each step adds to the trace\<close>

lemma preValidateArguments_counts:
  "preValidateArguments contract args s = (r, s') \<Longrightarrow>
     submissions s' = submissions s \<and> receipts s' = receipts s
     \<and> (\<forall>h. r \<noteq> Inl (DeploymentReverted h))"
  by (auto simp: preValidateArguments_def bindJ_def getProp_def get_prop_def emit_def
      submissions_def receipts_def split: sum.splits jsval.splits)

lemma prepareDeployTransaction_counts:
  "prepareDeployTransaction E contract args s = (r, s') \<Longrightarrow>
     submissions s' = submissions s \<and> receipts s' = receipts s
     \<and> (\<forall>h. r \<noteq> Inl (DeploymentReverted h))"
  by (auto simp: prepareDeployTransaction_def bindJ_def getProp_def get_prop_def call_def
      submissions_def receipts_def split: sum.splits prod.splits jsval.splits)

lemma overrideDeployTransactionConfig_counts:
  "overrideDeployTransactionConfig E this tx s = (r, s') \<Longrightarrow>
     submissions s' = submissions s \<and> receipts s' = receipts s
     \<and> (\<forall>h. r \<noteq> Inl (DeploymentReverted h))"
proof -
  assume run: "overrideDeployTransactionConfig E this tx s = (r, s')"
  have "r \<noteq> Inl (DeploymentReverted h)" for h
    using run
    by (auto simp: overrideDeployTransactionConfig_def bindJ_def getProp_def get_prop_def
        setProp_def set_prop_def returnJ_def split: sum.splits prod.splits if_splits jsval.splits)
  then show ?thesis
    by (simp add: submissions_def receipts_def overrideDeployTransactionConfig_trace [OF run])
qed

lemma sendDeployTransaction_counts:
  "sendDeployTransaction E this tx s = (r, s') \<Longrightarrow>
     submissions s' = submissions s + 1 \<and> receipts s' = receipts s
     \<and> (\<forall>h. r \<noteq> Inl (DeploymentReverted h))"
  by (auto simp: sendDeployTransaction_def bindJ_def emit_def call_def submissions_def
      receipts_def split: sum.splits prod.splits)

lemma waitForDeployTransaction_counts:
  "waitForDeployTransaction E this transaction s = (r, s') \<Longrightarrow>
     submissions s' = submissions s \<and> receipts s' = receipts s
     \<and> (\<forall>h. r \<noteq> Inl (DeploymentReverted h))"
  by (auto simp: waitForDeployTransaction_def bindJ_def getProp_def get_prop_def emit_def
      call_def returnJ_def submissions_def receipts_def
      split: sum.splits prod.splits jsval.splits)

lemma getTransactionReceipt_counts:
  "getTransactionReceipt E this transaction s = (r, s') \<Longrightarrow>
     submissions s' = submissions s \<and> receipts s \<le> receipts s'
     \<and> receipts s' \<le> receipts s + 1
     \<and> ((\<exists>x. r = Inr x) \<longrightarrow> receipts s' = receipts s + 1)
     \<and> (\<forall>h. r \<noteq> Inl (DeploymentReverted h))"
  by (auto simp: getTransactionReceipt_def bindJ_def getProp_def get_prop_def emit_def
      call_def submissions_def receipts_def split: sum.splits prod.splits jsval.splits)

lemma generateDeploymentResult_counts:
  "generateDeploymentResult contract transaction receipt s = (r, s') \<Longrightarrow>
     submissions s' = submissions s \<and> receipts s' = receipts s"
  by (auto simp: generateDeploymentResult_eq submissions_def receipts_def split: sum.splits)

lemma fetchReceipt_counts:
  assumes "fetchReceipt E this contract args s = (r, s')"
  shows "submissions s \<le> submissions s' \<and> submissions s' \<le> submissions s + 1
       \<and> receipts s \<le> receipts s' \<and> receipts s' \<le> receipts s + 1
       \<and> ((\<exists>x. r = Inr x) \<longrightarrow>
            submissions s' = submissions s + 1 \<and> receipts s' = receipts s + 1)
       \<and> (\<forall>h. r \<noteq> Inl (DeploymentReverted h))"
  using assms unfolding fetchReceipt_def
proof (cases rule: bindJ_cases)
  case (fail e)
  then show ?thesis by (auto dest: preValidateArguments_counts)
next
  case (ok u s1)
  note c1 = preValidateArguments_counts [OF ok(1)]
  from ok(2) show ?thesis
  proof (cases rule: bindJ_cases)
    case (fail e)
    then show ?thesis using c1 by (auto dest: prepareDeployTransaction_counts)
  next
    case (ok dtx s2)
    note c2 = prepareDeployTransaction_counts [OF ok(1)]
    from ok(2) show ?thesis
    proof (cases rule: bindJ_cases)
      case (fail e)
      then show ?thesis using c1 c2 by (auto dest: overrideDeployTransactionConfig_counts)
    next
      case (ok tx s3)
      note c3 = overrideDeployTransactionConfig_counts [OF ok(1)]
      from ok(2) show ?thesis
      proof (cases rule: bindJ_cases)
        case (fail e)
        then show ?thesis using c1 c2 c3 by (auto dest: sendDeployTransaction_counts)
      next
        case (ok transaction s4)
        note c4 = sendDeployTransaction_counts [OF ok(1)]
        from ok(2) show ?thesis
        proof (cases rule: bindJ_cases)
          case (fail e)
          then show ?thesis using c1 c2 c3 c4 by (auto dest: waitForDeployTransaction_counts)
        next
          case (ok u' s5)
          note c5 = waitForDeployTransaction_counts [OF ok(1)]
          from ok(2) show ?thesis
          proof (cases rule: bindJ_cases)
            case (fail e)
            then show ?thesis
              using c1 c2 c3 c4 c5 by (auto dest: getTransactionReceipt_counts)
          next
            case (ok receipt s6)
            note c6 = getTransactionReceipt_counts [OF ok(1)]
            from ok(2) have "s' = s6" and "r = Inr (transaction, receipt)"
              by (simp_all add: returnJ_def)
            then show ?thesis using c1 c2 c3 c4 c5 c6 by simp
          qed
        qed
      qed
    qed
  qed
qed

subsection \<open>The trace only grows\<close>

lemma bindJ_grows:
  assumes "\<And>s. prefix (trace s) (trace (snd (m s)))"
      and "\<And>x s. prefix (trace s) (trace (snd (f x s)))"
  shows "prefix (trace s) (trace (snd (bindJ m f s)))"
proof (cases "m s")
  case (Pair r s1)
  from assms(1) [of s] Pair have 1: "prefix (trace s) (trace s1)" by simp
  show ?thesis
  proof (cases r)
    case (Inl e)
    with Pair 1 show ?thesis by (simp add: bindJ_def)
  next
    case (Inr x)
    with Pair have "bindJ m f s = f x s1" by (simp add: bindJ_def)
    with assms(2) [of s1 x] 1 show ?thesis by (auto intro: prefix_order.trans)
  qed
qed

lemma getProp_grows: "prefix (trace s) (trace (snd (getProp v k s)))"
  by (simp add: getProp_def)

lemma emit_grows: "prefix (trace s) (trace (snd (emit ev s)))"
  by (simp add: emit_def)

lemma call_grows: "prefix (trace s) (trace (snd (call f s)))"
  by (simp add: call_def split: prod.splits sum.splits)

lemma returnJ_grows: "prefix (trace s) (trace (snd (returnJ x s)))"
  by (simp add: returnJ_def)

lemma throwJ_grows: "prefix (trace s) (trace (snd (throwJ e s)))"
  by (simp add: throwJ_def)

lemmas grows = bindJ_grows getProp_grows emit_grows call_grows returnJ_grows throwJ_grows

lemma waitForDeployTransaction_grows:
  "prefix (trace s) (trace (snd (waitForDeployTransaction E this transaction s)))"
  unfolding waitForDeployTransaction_def by (intro grows)

lemma getTransactionReceipt_grows:
  "prefix (trace s) (trace (snd (getTransactionReceipt E this transaction s)))"
  unfolding getTransactionReceipt_def by (intro grows)

lemma postValidateTransaction_grows:
  "prefix (trace s) (trace (snd (postValidateTransaction contract transaction receipt s)))"
  unfolding postValidateTransaction_def
  by (intro bindJ_grows getProp_grows) (simp add: grows)

lemma generateDeploymentResult_grows:
  "prefix (trace s) (trace (snd (generateDeploymentResult contract transaction receipt s)))"
  unfolding generateDeploymentResult_def by (intro grows)

lemmas step_grows = waitForDeployTransaction_grows getTransactionReceipt_grows
  postValidateTransaction_grows generateDeploymentResult_grows

subsection \<open>The concrete deployment, step by step\<close>

lemmas ex_defs = ex_env_def ex_env_reverted_def ex_env_rejected_def ex_this_def ex_state_def
  ex_heap_def ex_args_def ex_built_def ex_overridden_def ex_fetched_def ex_receipt_def plain_def

lemmas step_defs = preValidateArguments_def prepareDeployTransaction_def
  overrideDeployTransactionConfig_def sendDeployTransaction_def waitForDeployTransaction_def
  getTransactionReceipt_def postValidateTransaction_def generateDeploymentResult_def
  bindJ_def returnJ_def throwJ_def getProp_def setProp_def emit_def call_def
  get_prop_def set_prop_def assign_def deref_def gt_zero_def ToNumber_def strict_eq_zero_def

lemma ex_preValidate:
  "preValidateArguments (JRef 3) ex_args ex_state =
     (Inr (), ex_state\<lparr>trace := [ConsoleLog (DeployingContract (JStr ''Token'') (Some ex_args))]\<rparr>)"
  by (simp add: step_defs ex_defs)

lemma ex_prepare:
  "prepareDeployTransaction E (JRef 3) ex_args
     (ex_state\<lparr>trace := [ConsoleLog (DeployingContract (JStr ''Token'') (Some ex_args))]\<rparr>) =
   (case ethers_getDeployTransaction E (JStr ''0x600a'') (JRef 4) ex_args ex_heap of
      (Inl x, h) \<Rightarrow> (Inl (Thrown x), ex_built\<lparr>heap := h\<rparr>)
    | (Inr v, h) \<Rightarrow> (Inr v, ex_built\<lparr>heap := h\<rparr>))"
  by (simp add: step_defs ex_state_def ex_heap_def ex_built_def plain_def split: prod.splits sum.splits)

lemma ex_build:
  "prepareDeployTransaction ex_env (JRef 3) ex_args
     (ex_state\<lparr>trace := [ConsoleLog (DeployingContract (JStr ''Token'') (Some ex_args))]\<rparr>) =
   (Inr (JRef 5), ex_built)"
  by (simp add: ex_prepare) (simp add: ex_defs)

lemma ex_override:
  "overrideDeployTransactionConfig E ex_this (JRef 5) ex_built = (Inr (JRef 5), ex_overridden)"
  by (simp add: step_defs ex_defs)

lemma ex_fetch:
  "fetchReceipt ex_env ex_this (JRef 3) ex_args ex_state =
     (Inr (JRef 6, JRef 7), ex_fetched (Finite 1))"
  unfolding fetchReceipt_def
  by (simp add: bindJ_def ex_preValidate ex_build ex_override)
     (simp add: step_defs ex_defs)

lemma ex_fetch_reverted:
  "fetchReceipt ex_env_reverted ex_this (JRef 3) ex_args ex_state =
     (Inr (JRef 6, JRef 7), ex_fetched (Finite 0))"
  unfolding fetchReceipt_def
  by (simp add: bindJ_def ex_preValidate ex_prepare ex_override)
     (simp add: step_defs ex_defs)

lemma ex_deploy_result:
  "fst (deploy ex_env ex_this (JRef 3) ex_args ex_state) = Inr (JStr ''0xABC'')"
  unfolding deploy_split
  by (simp add: bindJ_def ex_fetch) (simp add: step_defs ex_defs)

lemma ex_deploy_rejected:
  "deploy ex_env_rejected ex_this (JRef 3) ex_args ex_state =
     (Inl (Thrown (JStr ''insufficient funds'')),
      ex_overridden\<lparr>trace := trace ex_overridden @
        [SendTransaction (JRef 0) (JRef 5)
           (Some (plain [(''data'', JStr ''0x600a''), (''gasPrice'', JNum (Finite 5))]))]\<rparr>)"
  unfolding deploy_def
  by (simp add: bindJ_def ex_preValidate ex_prepare ex_override)
     (simp add: step_defs ex_defs)

lemma override_inactive:
  assumes "get_prop (heap s) (defaultOverrides this) ''gasPrice'' = Inr gp"
      and "get_prop (heap s) (defaultOverrides this) ''gasLimit'' = Inr gl"
      and "\<not> gt_zero E gp" and "\<not> gt_zero E gl"
  shows "overrideDeployTransactionConfig E this tx s = (Inr tx, s)"
proof (cases "\<exists>a. tx = JRef a")
  case True
  then obtain a where "tx = JRef a" by blast
  then show ?thesis
    using override_object [OF assms(1,2), of E a] assms(3,4)
    by (simp add: overridden_heap_def)
next
  case False
  then show ?thesis
    using override_primitive [OF assms(1,2), of tx E] assms(3,4) by simp
qed

section \<open>Properties\<close>

text \<open>
  C1. A call of \<open>deploy\<close> returns a value exactly when the first six steps produce a
  receipt whose status is not \<open>0\<close>, and the value it returns is then the
  \<open>contractAddress\<close> of that receipt; the only thing the last two steps add is the console
  line that reports the address.
\<close>

theorem deploy_returns_receipt_address:
  "deploy E this contract args s = (Inr r, s') \<longleftrightarrow>
     (\<exists>transaction receipt s6 status name.
        fetchReceipt E this contract args s = (Inr (transaction, receipt), s6)
      \<and> get_prop (heap s6) receipt ''status'' = Inr status \<and> \<not> strict_eq_zero status
      \<and> get_prop (heap s6) receipt ''contractAddress'' = Inr r
      \<and> get_prop (heap s6) contract ''contractName'' = Inr name
      \<and> s' = s6\<lparr>trace := trace s6 @ [ConsoleLog (ContractDeployed name r)]\<rparr>)"
  unfolding deploy_split
  by (simp add: bindJ_eq_Inr postValidateTransaction_Inr generateDeploymentResult_Inr) blast

theorem deploy_returns_receipt_address_witness:
  "deploy ex_env ex_this (JRef 3) ex_args ex_state =
     (Inr (JStr ''0xABC''),
      (ex_fetched (Finite 1))\<lparr>trace := trace (ex_fetched (Finite 1)) @
         [ConsoleLog (ContractDeployed (JStr ''Token'') (JStr ''0xABC''))]\<rparr>)"
proof -
  have status: "get_prop (heap (ex_fetched (Finite 1))) (JRef 7) ''status'' = Inr (JNum (Finite 1))"
    by (simp add: get_prop_def ex_defs)
  have ok: "\<not> strict_eq_zero (JNum (Finite 1))"
    by (simp add: strict_eq_zero_def)
  have address:
    "get_prop (heap (ex_fetched (Finite 1))) (JRef 7) ''contractAddress'' = Inr (JStr ''0xABC'')"
    by (simp add: get_prop_def ex_defs)
  have name:
    "get_prop (heap (ex_fetched (Finite 1))) (JRef 3) ''contractName'' = Inr (JStr ''Token'')"
    by (simp add: get_prop_def ex_defs)
  show ?thesis
    by (subst deploy_returns_receipt_address) (use ex_fetch status ok address name in blast)
qed

text \<open>
  C2. When the overrides hold a \<open>gasPrice\<close> that is \<open><= 0\<close>, the apply-overrides step
  leaves the \<open>gasPrice\<close> property of the transaction as it was (present with the same
  value, or absent); the same for \<open>gasLimit\<close>. This holds for every transaction value
  and whether or not the step throws.
\<close>

theorem nonpositive_override_keeps_default:
  assumes "k = ''gasPrice'' \<or> k = ''gasLimit''"
      and "get_prop (heap s) (defaultOverrides this) k = Inr v"
      and "le_zero E v"
  shows "field (heap (snd (overrideDeployTransactionConfig E this tx s))) tx k =
         field (heap s) tx k"
proof (cases "\<exists>a. tx = JRef a")
  case False
  then show ?thesis by (cases tx) (simp_all add: field_def deref_def)
next
  case True
  then obtain a where tx: "tx = JRef a" by blast
  from override_readable(2) [OF assms(2)] obtain gp gl where
    gp: "get_prop (heap s) (defaultOverrides this) ''gasPrice'' = Inr gp" and
    gl: "get_prop (heap s) (defaultOverrides this) ''gasLimit'' = Inr gl" by blast
  from assms(1) show ?thesis
  proof
    assume k: "k = ''gasPrice''"
    with assms(2) gp have "gp = v" by simp
    with le_zero_not_gt_zero [OF assms(3)] show ?thesis
      by (simp add: tx k override_object [OF gp gl] overridden_heap_field)
  next
    assume k: "k = ''gasLimit''"
    with assms(2) gl have "gl = v" by simp
    with le_zero_not_gt_zero [OF assms(3)] show ?thesis
      by (simp add: tx k override_object [OF gp gl] overridden_heap_field)
  qed
qed

theorem nonpositive_override_keeps_default_witness:
  "le_zero ex_env (JNum (Finite 0))
   \<and> field (heap (snd (overrideDeployTransactionConfig ex_env ex_this (JRef 5) ex_built)))
        (JRef 5) ''gasLimit'' = field (heap ex_built) (JRef 5) ''gasLimit''"
proof -
  have g: "get_prop (heap ex_built) (defaultOverrides ex_this) ''gasLimit'' = Inr (JNum (Finite 0))"
    by (simp add: get_prop_def ex_defs)
  have le: "le_zero ex_env (JNum (Finite 0))"
    by (simp add: le_zero_def ToNumber_def)
  from nonpositive_override_keeps_default [OF _ g le, of "JRef 5"] le
  show ?thesis by simp
qed

text \<open>
  C3. With no overrides at all (\<open>defaultOverrides\<close> is \<open>undefined\<close>) the apply-overrides
  step hands back the transaction it was given and changes neither the heap nor the trace;
  so the call that \<open>deploy\<close> makes to \<open>sendTransaction\<close> right after the build step
  carries the very value that the build step returned, naming an object with the fields the
  build step left.
\<close>

theorem absent_overrides_leave_transaction:
  assumes "defaultOverrides this = JUndefined"
  shows "overrideDeployTransactionConfig E this deployTransaction s2 = (Inr deployTransaction, s2)
       \<and> (preValidateArguments contract args s = (Inr u, s1) \<longrightarrow>
          prepareDeployTransaction E contract args s1 = (Inr deployTransaction, s2) \<longrightarrow>
            prefix (trace s2 @ [SendTransaction (wallet this) deployTransaction
                                  (deref (heap s2) deployTransaction)])
              (trace (snd (deploy E this contract args s))))"
proof -
  have id: "overrideDeployTransactionConfig E this deployTransaction s2 = (Inr deployTransaction, s2)"
    using assms by (simp add: overrideDeployTransactionConfig_def returnJ_def)
  have "prefix (trace s2 @ [SendTransaction (wallet this) deployTransaction
                                  (deref (heap s2) deployTransaction)])
              (trace (snd (deploy E this contract args s)))"
    if pre: "preValidateArguments contract args s = (Inr u, s1)"
      and build: "prepareDeployTransaction E contract args s1 = (Inr deployTransaction, s2)"
  proof -
    let ?ev = "SendTransaction (wallet this) deployTransaction (deref (heap s2) deployTransaction)"
    let ?sA = "s2\<lparr>trace := trace s2 @ [?ev]\<rparr>"
    let ?rest = "bindJ (call (wallet_sendTransaction E (wallet this) deployTransaction))
       (\<lambda>transaction.
         bindJ (waitForDeployTransaction E this transaction) (\<lambda>_.
         bindJ (getTransactionReceipt E this transaction) (\<lambda>transactionReceipt.
         bindJ (postValidateTransaction contract transaction transactionReceipt) (\<lambda>_.
         generateDeploymentResult contract transaction transactionReceipt))))"
    have "deploy E this contract args s = ?rest ?sA"
      unfolding deploy_def
      by (simp add: bindJ_def pre build id sendDeployTransaction_def emit_def)
    moreover have "prefix (trace ?sA) (trace (snd (?rest ?sA)))"
      by (intro grows step_grows)
    ultimately show ?thesis by simp
  qed
  with id show ?thesis by blast
qed

theorem absent_overrides_leave_transaction_witness:
  "overrideDeployTransactionConfig ex_env (ex_this\<lparr>defaultOverrides := JUndefined\<rparr>) (JRef 5)
     ex_built = (Inr (JRef 5), ex_built)
   \<and> prefix (trace ex_built @
        [SendTransaction (JRef 0) (JRef 5) (Some (plain [(''data'', JStr ''0x600a'')]))])
       (trace (snd (deploy ex_env (ex_this\<lparr>defaultOverrides := JUndefined\<rparr>) (JRef 3) ex_args
          ex_state)))"
proof -
  have absent: "defaultOverrides (ex_this\<lparr>defaultOverrides := JUndefined\<rparr>) = JUndefined"
    by simp
  have w: "wallet (ex_this\<lparr>defaultOverrides := JUndefined\<rparr>) = JRef 0"
    by (simp add: ex_this_def)
  have d: "deref (heap ex_built) (JRef 5) = Some (plain [(''data'', JStr ''0x600a'')])"
    by (simp add: deref_def ex_built_def)
  from absent_overrides_leave_transaction [OF absent, of ex_env "JRef 5" ex_built "JRef 3"
      ex_args ex_state "()"] ex_preValidate ex_build
  show ?thesis by (simp add: w d)
qed

text \<open>
  C4. When the receipt that \<open>deploy\<close> fetched has status \<open>0\<close>, \<open>deploy\<close> throws the
  error whose message names the receipt's \<open>transactionHash\<close>, in the state in which the
  receipt arrived; it returns no address.
\<close>

theorem failed_receipt_reverts:
  assumes "fetchReceipt E this contract args s = (Inr (transaction, receipt), s6)"
      and "get_prop (heap s6) receipt ''status'' = Inr status"
      and "strict_eq_zero status"
  shows "\<exists>hash. get_prop (heap s6) receipt ''transactionHash'' = Inr hash
              \<and> deploy E this contract args s = (Inl (DeploymentReverted hash), s6)"
proof -
  from get_prop_total [OF assms(2)] obtain hash where
    h: "get_prop (heap s6) receipt ''transactionHash'' = Inr hash" by blast
  have step: "bindJ (fetchReceipt E this contract args) f s = f (transaction, receipt) s6"
    for f :: "jsval \<times> jsval \<Rightarrow> jsval js"
    using assms(1) by (simp add: bindJ_def)
  have "deploy E this contract args s = (Inl (DeploymentReverted hash), s6)"
    unfolding deploy_split step
    by (simp add: bindJ_def postValidateTransaction_eq assms(2,3) h)
  with h show ?thesis by blast
qed

theorem failed_receipt_reverts_witness:
  "deploy ex_env_reverted ex_this (JRef 3) ex_args ex_state =
     (Inl (DeploymentReverted (JStr ''0x01'')), ex_fetched (Finite 0))"
proof -
  have status: "get_prop (heap (ex_fetched (Finite 0))) (JRef 7) ''status'' = Inr (JNum (Finite 0))"
    by (simp add: get_prop_def ex_defs)
  have zero: "strict_eq_zero (JNum (Finite 0))"
    by (simp add: strict_eq_zero_def)
  have hash:
    "get_prop (heap (ex_fetched (Finite 0))) (JRef 7) ''transactionHash'' = Inr (JStr ''0x01'')"
    by (simp add: get_prop_def ex_defs)
  from failed_receipt_reverts [OF ex_fetch_reverted status zero] hash
  show ?thesis by simp
qed

text \<open>
  C5. When the wallet argument is not an instance of \<open>Wallet\<close>, the constructor throws the
  invalid-wallet error and leaves the state as it found it: nothing is assigned and the
  trace, which holds every call to the wallet and the provider, is the same.
\<close>

theorem constructor_rejects_non_wallet:
  "\<not> instanceof_Wallet (heap s) w \<Longrightarrow>
     Deployer_constructor w p ov s = (Inl InvalidIdentity, s)"
  by (simp add: Deployer_constructor_def throwJ_def)

theorem constructor_rejects_non_wallet_witness:
  "\<not> instanceof_Wallet (heap ex_state) (JStr ''0xkey'')
   \<and> Deployer_constructor (JStr ''0xkey'') (JRef 1) (JRef 2) ex_state =
       (Inl InvalidIdentity, ex_state)"
proof -
  have n: "\<not> instanceof_Wallet (heap ex_state) (JStr ''0xkey'')"
    by (simp add: instanceof_Wallet_def deref_def)
  from constructor_rejects_non_wallet [OF n] n show ?thesis by simp
qed

text \<open>
  C6. With overrides that can be read (any value but \<open>undefined\<close> and \<open>null\<close>) and a
  transaction that is an object, the apply-overrides step returns the transaction and
  assigns \<open>gasPrice\<close> exactly when the overrides' \<open>gasPrice\<close> is \<open>> 0\<close>, then
  \<open>gasLimit\<close> exactly when the overrides' \<open>gasLimit\<close> is \<open>> 0\<close>, each test looking at its
  own value only. Every other property of the transaction, every other object and the trace
  stay as they were.
\<close>

theorem override_sets_gas_fields_only:
  assumes "get_prop (heap s) (defaultOverrides this) ''gasPrice'' = Inr gp"
      and "get_prop (heap s) (defaultOverrides this) ''gasLimit'' = Inr gl"
      and "overrideDeployTransactionConfig E this (JRef a) s = (r, s')"
  shows "r = Inr (JRef a)
       \<and> props (heap s' a) =
           (if gt_zero E gl then AList.update ''gasLimit'' gl else id)
             ((if gt_zero E gp then AList.update ''gasPrice'' gp else id) (props (heap s a)))
       \<and> (\<forall>k. field (heap s') (JRef a) k =
                (if k = ''gasPrice'' \<and> gt_zero E gp then Some gp
                 else if k = ''gasLimit'' \<and> gt_zero E gl then Some gl
                 else field (heap s) (JRef a) k))
       \<and> isWallet (heap s' a) = isWallet (heap s a)
       \<and> (\<forall>b. b \<noteq> a \<longrightarrow> heap s' b = heap s b)
       \<and> trace s' = trace s"
proof -
  from override_object [OF assms(1,2), of E a] assms(3)
  have r: "r = Inr (JRef a)" and s': "s' = s\<lparr>heap := overridden_heap E gp gl a (heap s)\<rparr>"
    by simp_all
  show ?thesis
    unfolding s' using r
    by (simp add: overridden_heap_props overridden_heap_field overridden_heap_other
        overridden_heap_isWallet)
qed

theorem override_sets_gas_fields_only_witness:
  "overrideDeployTransactionConfig ex_env ex_this (JRef 5) ex_built = (Inr (JRef 5), ex_overridden)
   \<and> field (heap ex_overridden) (JRef 5) ''gasPrice'' = Some (JNum (Finite 5))
   \<and> field (heap ex_overridden) (JRef 5) ''gasLimit'' = field (heap ex_built) (JRef 5) ''gasLimit''
   \<and> field (heap ex_overridden) (JRef 5) ''data'' = field (heap ex_built) (JRef 5) ''data''
   \<and> heap ex_overridden 2 = heap ex_built 2"
proof -
  have gp: "get_prop (heap ex_built) (defaultOverrides ex_this) ''gasPrice'' = Inr (JNum (Finite 5))"
    by (simp add: get_prop_def ex_defs)
  have gl: "get_prop (heap ex_built) (defaultOverrides ex_this) ''gasLimit'' = Inr (JNum (Finite 0))"
    by (simp add: get_prop_def ex_defs)
  have pos: "gt_zero ex_env (JNum (Finite 5))" and zero: "\<not> gt_zero ex_env (JNum (Finite 0))"
    by (simp_all add: gt_zero_def ToNumber_def)
  note run = ex_override [of ex_env]
  from override_sets_gas_fields_only [OF gp gl run]
  have f: "\<And>k. field (heap ex_overridden) (JRef 5) k =
                (if k = ''gasPrice'' \<and> gt_zero ex_env (JNum (Finite 5)) then Some (JNum (Finite 5))
                 else if k = ''gasLimit'' \<and> gt_zero ex_env (JNum (Finite 0))
                      then Some (JNum (Finite 0))
                 else field (heap ex_built) (JRef 5) k)"
    and o: "\<And>b. b \<noteq> 5 \<Longrightarrow> heap ex_overridden b = heap ex_built b"
    by blast+
  show ?thesis
    using run f [of "''gasPrice''"] f [of "''gasLimit''"] f [of "''data''"] o [of 2] pos zero
    by simp
qed

text \<open>
  C7, as amended. No run of \<open>deploy\<close> submits more than one transaction or asks for more
  than one receipt, and none takes anything back from the trace. A run that returns an
  address, or that throws because the receipt's status is \<open>0\<close>, has submitted exactly one
  transaction and asked for exactly one receipt. (A run that throws earlier may have
  submitted none, or submitted one and asked for no receipt.)
\<close>

theorem deploy_submits_at_most_once:
  assumes "deploy E this contract args s = (r, s')"
  shows "submissions s \<le> submissions s' \<and> submissions s' \<le> submissions s + 1
       \<and> receipts s \<le> receipts s' \<and> receipts s' \<le> receipts s + 1
       \<and> ((\<exists>address. r = Inr address) \<or> (\<exists>hash. r = Inl (DeploymentReverted hash)) \<longrightarrow>
            submissions s' = submissions s + 1 \<and> receipts s' = receipts s + 1)"
  using assms unfolding deploy_split
proof (cases rule: bindJ_cases)
  case (fail e)
  then show ?thesis by (auto dest: fetchReceipt_counts)
next
  case (ok p s6)
  note c = fetchReceipt_counts [OF ok(1)]
  obtain transaction receipt where p: "p = (transaction, receipt)" by (cases p)
  from ok(2) have "bindJ (postValidateTransaction contract transaction receipt) (\<lambda>_.
     generateDeploymentResult contract transaction receipt) s6 = (r, s')"
    by (simp add: p)
  then show ?thesis
  proof (cases rule: bindJ_cases)
    case (fail e)
    then show ?thesis using c by (auto dest: postValidateTransaction_state)
  next
    case (ok u s7)
    from postValidateTransaction_state [OF ok(1)] generateDeploymentResult_counts [OF ok(2)] c
    show ?thesis by simp
  qed
qed

theorem deploy_submits_at_most_once_witness:
  "submissions (snd (deploy ex_env ex_this (JRef 3) ex_args ex_state)) = 1
   \<and> receipts (snd (deploy ex_env ex_this (JRef 3) ex_args ex_state)) = 1"
proof -
  have run: "deploy ex_env ex_this (JRef 3) ex_args ex_state =
      (fst (deploy ex_env ex_this (JRef 3) ex_args ex_state),
       snd (deploy ex_env ex_this (JRef 3) ex_args ex_state))"
    by simp
  have none: "submissions ex_state = 0" "receipts ex_state = 0"
    by (simp_all add: submissions_def receipts_def ex_state_def)
  from deploy_submits_at_most_once [OF run] ex_deploy_result none
  show ?thesis by simp
qed

text \<open>
  C7 as stated, with exactly one submission and exactly one receipt also for a call that
  fails, does not hold: when the wallet rejects the broadcast, \<open>deploy\<close> throws after one
  submission and asks for no receipt.
\<close>

theorem rejected_broadcast_fetches_no_receipt:
  "\<not> (submissions (snd (deploy ex_env_rejected ex_this (JRef 3) ex_args ex_state)) =
        submissions ex_state + 1
      \<and> receipts (snd (deploy ex_env_rejected ex_this (JRef 3) ex_args ex_state)) =
        receipts ex_state + 1)"
proof -
  have "receipts (snd (deploy ex_env_rejected ex_this (JRef 3) ex_args ex_state)) = 0"
    by (simp add: ex_deploy_rejected receipts_def ex_overridden_def)
  then show ?thesis by simp
qed

text \<open>
  C8. A constructor call that succeeds keeps the caller's wallet (the same reference) and
  has assigned the provider to the \<open>provider\<close> property of that very object: the property
  now holds the provider, so the heap differs from the one before unless the property held
  that provider already. The wallet's other properties, every other object and the trace
  are as before.
\<close>

theorem constructor_assigns_wallet_provider:
  assumes "Deployer_constructor w p ov s = (Inr this, s')"
  shows "wallet this = w
       \<and> field (heap s') w ''provider'' = Some p
       \<and> (\<forall>k. k \<noteq> ''provider'' \<longrightarrow> field (heap s') w k = field (heap s) w k)
       \<and> (\<forall>v. v \<noteq> w \<longrightarrow> deref (heap s') v = deref (heap s) v)
       \<and> (field (heap s) w ''provider'' \<noteq> Some p \<longrightarrow> heap s' \<noteq> heap s)
       \<and> trace s' = trace s"
proof -
  from assms have inst: "instanceof_Wallet (heap s) w"
    by (auto simp: Deployer_constructor_def throwJ_def split: if_splits)
  then obtain a where w: "w = JRef a"
    by (cases w) (simp_all add: instanceof_Wallet_def deref_def)
  from assms inst have d: "this = \<lparr>wallet = w, provider = p, defaultOverrides = ov\<rparr>"
    and s': "s' = s\<lparr>heap := assign (heap s) a ''provider'' p\<rparr>"
    by (auto simp: Deployer_constructor_def bindJ_def setProp_def set_prop_def returnJ_def w)
  have other: "deref (heap s') v = deref (heap s) v" if "v \<noteq> w" for v
    using that by (cases v) (simp_all add: s' w deref_def assign_def)
  have changed: "heap s' \<noteq> heap s" if "field (heap s) w ''provider'' \<noteq> Some p"
  proof
    assume "heap s' = heap s"
    then have "field (heap s') w ''provider'' = field (heap s) w ''provider''" by simp
    with that show False by (simp add: s' w field_assign)
  qed
  show ?thesis
    using other changed by (simp add: d) (simp add: s' w field_assign)
qed

theorem constructor_assigns_wallet_provider_witness:
  "Deployer_constructor (JRef 0) (JRef 1) (JRef 2) ex_state =
     (Inr ex_this, ex_state\<lparr>heap := assign ex_heap 0 ''provider'' (JRef 1)\<rparr>)
   \<and> field ex_heap (JRef 0) ''provider'' = None
   \<and> field (assign ex_heap 0 ''provider'' (JRef 1)) (JRef 0) ''provider'' = Some (JRef 1)
   \<and> assign ex_heap 0 ''provider'' (JRef 1) \<noteq> ex_heap"
proof -
  have run: "Deployer_constructor (JRef 0) (JRef 1) (JRef 2) ex_state =
     (Inr ex_this, ex_state\<lparr>heap := assign ex_heap 0 ''provider'' (JRef 1)\<rparr>)"
    by (simp add: Deployer_constructor_def instanceof_Wallet_def deref_def bindJ_def
        setProp_def set_prop_def returnJ_def ex_state_def ex_heap_def ex_this_def)
  have before: "field ex_heap (JRef 0) ''provider'' = None"
    by (simp add: field_def deref_def ex_heap_def)
  from constructor_assigns_wallet_provider [OF run] run before
  show ?thesis by (simp add: ex_state_def)
qed

text \<open>
  C9. Only \<open>undefined\<close> counts as no overrides. With \<open>null\<close> the step throws a
  \<open>TypeError\<close> at its first read and changes nothing, and a \<open>deploy\<close> that got as far as
  a built transaction ends there with that error, before anything is submitted. With any
  other value the two tests run; when neither value read is \<open>> 0\<close>, as for an object that
  has neither a \<open>gasPrice\<close> nor a \<open>gasLimit\<close> property, the step returns the transaction
  and leaves the state as it was.
\<close>

theorem null_overrides_fail_empty_overrides_pass:
  "(defaultOverrides this = JNull \<longrightarrow>
      overrideDeployTransactionConfig E this tx s2 = (Inl TypeError, s2)
      \<and> (preValidateArguments contract args s = (Inr u, s1) \<longrightarrow>
         prepareDeployTransaction E contract args s1 = (Inr tx, s2) \<longrightarrow>
           deploy E this contract args s = (Inl TypeError, s2)))
   \<and> (get_prop (heap s2) (defaultOverrides this) ''gasPrice'' = Inr gp \<and> \<not> gt_zero E gp
      \<and> get_prop (heap s2) (defaultOverrides this) ''gasLimit'' = Inr gl \<and> \<not> gt_zero E gl \<longrightarrow>
      overrideDeployTransactionConfig E this tx s2 = (Inr tx, s2))
   \<and> (defaultOverrides this = JRef b \<and> field (heap s2) (JRef b) ''gasPrice'' = None
      \<and> field (heap s2) (JRef b) ''gasLimit'' = None \<longrightarrow>
      overrideDeployTransactionConfig E this tx s2 = (Inr tx, s2))"
proof -
  have "deploy E this contract args s = (Inl TypeError, s2)"
    if "defaultOverrides this = JNull"
      and "preValidateArguments contract args s = (Inr u, s1)"
      and "prepareDeployTransaction E contract args s1 = (Inr tx, s2)"
    unfolding deploy_def
    by (simp add: bindJ_def that(2,3) override_null [OF that(1)])
  then show ?thesis
    by (auto simp: override_null intro: override_inactive override_no_gas_fields)
qed

theorem null_overrides_fail_empty_overrides_pass_witness:
  "overrideDeployTransactionConfig ex_env (ex_this\<lparr>defaultOverrides := JNull\<rparr>) (JRef 5) ex_built =
     (Inl TypeError, ex_built)
   \<and> deploy ex_env (ex_this\<lparr>defaultOverrides := JNull\<rparr>) (JRef 3) ex_args ex_state =
     (Inl TypeError, ex_built)
   \<and> overrideDeployTransactionConfig ex_env (ex_this\<lparr>defaultOverrides := JRef 8\<rparr>) (JRef 5) ex_built =
     (Inr (JRef 5), ex_built)
   \<and> overrideDeployTransactionConfig ex_env (ex_this\<lparr>defaultOverrides := JRef 3\<rparr>) (JRef 5) ex_built =
     (Inr (JRef 5), ex_built)"
proof -
  have n: "defaultOverrides (ex_this\<lparr>defaultOverrides := JNull\<rparr>) = JNull"
    by simp
  have empty: "field (heap ex_built) (JRef 8) ''gasPrice'' = None"
    "field (heap ex_built) (JRef 8) ''gasLimit'' = None"
    by (simp_all add: field_def deref_def ex_defs)
  have unrecognized: "field (heap ex_built) (JRef 3) ''gasPrice'' = None"
    "field (heap ex_built) (JRef 3) ''gasLimit'' = None"
    by (simp_all add: field_def deref_def ex_defs)
  from null_overrides_fail_empty_overrides_pass
      [of "ex_this\<lparr>defaultOverrides := JNull\<rparr>" ex_env "JRef 5" ex_built "JRef 3" ex_args
        ex_state "()" _ JUndefined JUndefined 0] n ex_preValidate ex_build
  have 1: "overrideDeployTransactionConfig ex_env (ex_this\<lparr>defaultOverrides := JNull\<rparr>) (JRef 5)
       ex_built = (Inl TypeError, ex_built)
     \<and> deploy ex_env (ex_this\<lparr>defaultOverrides := JNull\<rparr>) (JRef 3) ex_args ex_state =
       (Inl TypeError, ex_built)"
    by simp
  from null_overrides_fail_empty_overrides_pass
      [of "ex_this\<lparr>defaultOverrides := JRef 8\<rparr>" ex_env "JRef 5" ex_built "JRef 3" ex_args
        ex_state "()" _ JUndefined JUndefined 8] empty
  have 2: "overrideDeployTransactionConfig ex_env (ex_this\<lparr>defaultOverrides := JRef 8\<rparr>) (JRef 5)
       ex_built = (Inr (JRef 5), ex_built)"
    by simp
  from null_overrides_fail_empty_overrides_pass
      [of "ex_this\<lparr>defaultOverrides := JRef 3\<rparr>" ex_env "JRef 5" ex_built "JRef 3" ex_args
        ex_state "()" _ JUndefined JUndefined 3] unrecognized
  have 3: "overrideDeployTransactionConfig ex_env (ex_this\<lparr>defaultOverrides := JRef 3\<rparr>) (JRef 5)
       ex_built = (Inr (JRef 5), ex_built)"
    by simp
  from 1 2 3 show ?thesis by simp
qed

text \<open>
  C10. The apply-overrides step works in place and is idempotent: what it returns is the
  value it was given (the same reference, so the same object), and running it again in the
  state it left gives the same outcome and the same state.
\<close>

theorem override_idempotent_in_place:
  assumes "overrideDeployTransactionConfig E this tx s = (r, s')"
  shows "(\<forall>v. r = Inr v \<longrightarrow> v = tx)
       \<and> overrideDeployTransactionConfig E this tx s' = (r, s')"
proof (cases "\<exists>gp gl. get_prop (heap s) (defaultOverrides this) ''gasPrice'' = Inr gp
                \<and> get_prop (heap s) (defaultOverrides this) ''gasLimit'' = Inr gl")
  case False
  then have "defaultOverrides this = JUndefined \<or> defaultOverrides this = JNull"
    by (cases "defaultOverrides this") (simp_all add: get_prop_def)
  then show ?thesis
    using assms override_null [of this E tx]
    by (auto simp: overrideDeployTransactionConfig_def returnJ_def)
next
  case True
  then obtain gp gl where
    gp: "get_prop (heap s) (defaultOverrides this) ''gasPrice'' = Inr gp" and
    gl: "get_prop (heap s) (defaultOverrides this) ''gasLimit'' = Inr gl" by blast
  show ?thesis
  proof (cases "\<exists>a. tx = JRef a")
    case False
    then have "\<forall>a. tx \<noteq> JRef a" by simp
    from override_primitive [OF gp gl this, of E] assms
    have s': "s' = s" and r: "r = (if gt_zero E gp \<or> gt_zero E gl then Inl TypeError else Inr tx)"
      by simp_all
    show ?thesis
      using assms by (auto simp: s' r)
  next
    case True
    then obtain a where tx: "tx = JRef a" by blast
    let ?h = "overridden_heap E gp gl a (heap s)"
    from override_object [OF gp gl, of E a] assms
    have r: "r = Inr tx" and s': "s' = s\<lparr>heap := ?h\<rparr>"
      by (simp_all add: tx)
    have gp': "get_prop (heap s') (defaultOverrides this) ''gasPrice'' = Inr gp"
      using gp by (simp add: s' overridden_heap_get_prop)
    have gl': "get_prop (heap s') (defaultOverrides this) ''gasLimit'' = Inr gl"
      using gl by (simp add: s' overridden_heap_get_prop)
    have "overrideDeployTransactionConfig E this tx s' = (r, s')"
      using override_object [OF gp' gl', of E a]
      by (simp add: tx r) (simp add: s' overridden_heap_idem)
    then show ?thesis by (simp add: r)
  qed
qed

theorem override_idempotent_in_place_witness:
  "overrideDeployTransactionConfig ex_env ex_this (JRef 5) ex_built = (Inr (JRef 5), ex_overridden)
   \<and> overrideDeployTransactionConfig ex_env ex_this (JRef 5) ex_overridden =
       (Inr (JRef 5), ex_overridden)"
  using override_idempotent_in_place [OF ex_override [of ex_env]] ex_override [of ex_env]
  by simp

end
